theory Spec2Isabelle
  imports Complex_Main "HOL-Library.Char_ord" "HOL-Library.List_Lexorder"
begin

section \<open>Data model\<close>

text \<open>
  The appointment ledger of the backend, as the route handlers of
  \<^verbatim>\<open>routes/appointment.ts\<close>, \<^verbatim>\<open>routes/therapist.ts\<close>, \<^verbatim>\<open>routes/chatbot.ts\<close> and the admin
  analytics module use it.

  Conventions of the embedding.
  \<^item> An ObjectId is a \<open>nat\<close>; the \<^verbatim>\<open>isMongoId\<close> validator is discharged by the type.
  \<^item> A JavaScript \<^verbatim>\<open>Date\<close> is an \<open>int\<close> (milliseconds since the epoch). A request carries the
    instant that \<^verbatim>\<open>new Date(date)\<close> denotes; the \<^verbatim>\<open>isISO8601\<close> validator is discharged by the type.
  \<^item> Wall-clock times are the strings the handlers store; MongoDB compares them as strings
    (lexicographically by character code), which is the order \<open><\<close> on \<open>string\<close> here.
  \<^item> A JavaScript \<^verbatim>\<open>Number\<close> holding a price is a \<open>rat\<close>: the arithmetic of the handlers
    (\<^verbatim>\<open>/\<close>, \<^verbatim>\<open>*\<close>, \<^verbatim>\<open>+\<close>) is taken exactly, without the rounding of IEEE doubles.
  \<^item> A collection is the list of its documents in insertion order; a handler returns its
    response together with the store it leaves behind.
\<close>

datatype status = Pending | Confirmed | Cancelled | Completed | NoShow

record appointment =
  appt_id :: nat
  user :: nat
  therapist :: nat
  date :: int
  startTime :: string
  endTime :: string
  duration :: nat
  sessionType :: string
  sessionMode :: string
  appt_notes :: "string option"
  amount :: rat
  status :: status
  rating :: "int option"
  review :: "string option"
  cancellationReason :: "string option"
  createdAt :: int

record therapist_doc =
  t_id :: nat
  hourlyRate :: rat
  isActive :: bool
  isVerified :: bool

record store =
  therapists :: "therapist_doc list"
  users :: "nat list"
  appointments :: "appointment list"

text \<open>
  The error responses of the handlers, named by the failure they report:
  \<^item> \<open>ValidationError\<close>: 400 with the validator's \<^verbatim>\<open>errors\<close> array;
  \<^item> \<open>ProviderUnavailable\<close>: 404 \<^verbatim>\<open>Therapist not found or unavailable\<close>;
  \<^item> \<open>SlotConflict\<close>: 400 \<^verbatim>\<open>Time slot is not available\<close>;
  \<^item> \<open>NotFound\<close>: 404 \<^verbatim>\<open>Appointment not found\<close>;
  \<^item> \<open>NotCancellable\<close>: 404 \<^verbatim>\<open>Appointment not found or cannot be cancelled\<close>;
  \<^item> \<open>NotReviewable\<close>: 404 \<^verbatim>\<open>Appointment not found or not completed\<close>;
  \<^item> \<open>DateRequired\<close>: 400 \<^verbatim>\<open>Date is required\<close>;
  \<^item> \<open>ProviderNotFound\<close>: 404 \<^verbatim>\<open>Therapist not found\<close>.
\<close>

datatype error =
  ValidationError | ProviderUnavailable | SlotConflict | NotFound
  | NotCancellable | NotReviewable | DateRequired | ProviderNotFound

definition active :: "status \<Rightarrow> bool" where
  \<comment> \<open>\<^verbatim>\<open>status: { $in: ['pending', 'confirmed'] }\<close>\<close>
  "active s = (s = Pending \<or> s = Confirmed)"

definition findById :: "therapist_doc list \<Rightarrow> nat \<Rightarrow> therapist_doc option" where
  "findById ts i = find (\<lambda>t. t_id t = i) ts"

text \<open>
  \<^verbatim>\<open>findOneAndUpdate(filter, update)\<close> changes the first document that matches the filter,
  and a Mongoose \<^verbatim>\<open>save()\<close> of a loaded document sets its modified paths on the document
  with that \<^verbatim>\<open>_id\<close>.
\<close>

fun updateFirst :: "('a \<Rightarrow> bool) \<Rightarrow> ('a \<Rightarrow> 'a) \<Rightarrow> 'a list \<Rightarrow> 'a list" where
  "updateFirst P f [] = []"
| "updateFirst P f (x # xs) = (if P x then f x # xs else x # updateFirst P f xs)"

definition newObjectId :: "appointment list \<Rightarrow> nat" where
  \<comment> \<open>the driver generates an \<^verbatim>\<open>_id\<close> that no stored document has\<close>
  "newObjectId as = Suc (foldr max (map appt_id as) 0)"

text \<open>
  Modelled from the spec: the Appointment schema (\<^verbatim>\<open>models/Appointment.ts\<close>) is not among the
  sources. The handlers create an appointment without a status, and the specification says that
  a created appointment has \<^verbatim>\<open>status = pending\<close>: the schema's default.
\<close>

definition default_status :: status where
  "default_status = Pending"

section \<open>Time interval utilities\<close>

definition is_digit :: "char \<Rightarrow> bool" where
  "is_digit c = (CHR ''0'' \<le> c \<and> c \<le> CHR ''9'')"

definition digit_val :: "char \<Rightarrow> nat" where
  "digit_val c = of_char c - 48"

definition digit_char :: "nat \<Rightarrow> char" where
  "digit_char d = ''0123456789'' ! d"

text \<open>
  \<^verbatim>\<open>parseInt\<close> on a string of the validated form: the value of its leading decimal digits.
  (Without a leading digit JavaScript gives \<^verbatim>\<open>NaN\<close>; the validated start times always have one.)
\<close>

definition parseInt :: "string \<Rightarrow> nat" where
  "parseInt s = foldl (\<lambda>n c. 10 * n + digit_val c) 0 (takeWhile is_digit s)"

definition split0 :: "string \<Rightarrow> string" where
  \<comment> \<open>\<^verbatim>\<open>s.split(':')[0]\<close>\<close>
  "split0 s = takeWhile (\<lambda>c. c \<noteq> CHR '':'') s"

definition split1 :: "string \<Rightarrow> string" where
  \<comment> \<open>\<^verbatim>\<open>s.split(':')[1]\<close>, for a string with a colon\<close>
  "split1 s = takeWhile (\<lambda>c. c \<noteq> CHR '':'') (drop 1 (dropWhile (\<lambda>c. c \<noteq> CHR '':'') s))"

fun toString :: "nat \<Rightarrow> string" where
  "toString n = (if n < 10 then [digit_char n] else toString (n div 10) @ [digit_char (n mod 10)])"

declare toString.simps [simp del]

definition padStart2 :: "string \<Rightarrow> string" where
  \<comment> \<open>\<^verbatim>\<open>s.padStart(2, '0')\<close>\<close>
  "padStart2 s = replicate (2 - length s) CHR ''0'' @ s"

definition startTimeMinutes :: "string \<Rightarrow> nat" where
  "startTimeMinutes s = parseInt (split0 s) * 60 + parseInt (split1 s)"

definition formatTime :: "nat \<Rightarrow> string" where
  "formatTime m = padStart2 (toString (m div 60)) @ '':'' @ padStart2 (toString (m mod 60))"

definition computeEndTime :: "string \<Rightarrow> nat \<Rightarrow> string" where
  "computeEndTime s d = formatTime (startTimeMinutes s + d)"

definition matches_startTime :: "string \<Rightarrow> bool" where
  \<comment> \<open>\<^verbatim>\<open>/^([0-1]?[0-9]|2[0-3]):[0-5][0-9]$/\<close>\<close>
  "matches_startTime s =
     (case s of
        [h, c, m1, m2] \<Rightarrow>
          is_digit h \<and> c = CHR '':'' \<and> CHR ''0'' \<le> m1 \<and> m1 \<le> CHR ''5'' \<and> is_digit m2
      | [h1, h2, c, m1, m2] \<Rightarrow>
          (((h1 = CHR ''0'' \<or> h1 = CHR ''1'') \<and> is_digit h2)
             \<or> (h1 = CHR ''2'' \<and> CHR ''0'' \<le> h2 \<and> h2 \<le> CHR ''3''))
          \<and> c = CHR '':'' \<and> CHR ''0'' \<le> m1 \<and> m1 \<le> CHR ''5'' \<and> is_digit m2
      | _ \<Rightarrow> False)"

text \<open>A wall-clock string in the zero-padded form \<^verbatim>\<open>HH:MM\<close>, minutes below 60.\<close>

definition hhmm :: "string \<Rightarrow> bool" where
  "hhmm s =
     (case s of
        [a, b, c, d, e] \<Rightarrow>
          is_digit a \<and> is_digit b \<and> c = CHR '':'' \<and> CHR ''0'' \<le> d \<and> d \<le> CHR ''5'' \<and> is_digit e
      | _ \<Rightarrow> False)"

section \<open>Booking engine\<close>

record book_request =
  b_therapistId :: nat
  b_date :: int
  b_startTime :: string
  b_duration :: nat
  b_sessionType :: string
  b_sessionMode :: string
  b_notes :: "string option"

definition is_space :: "char \<Rightarrow> bool" where
  "is_space c = (c \<in> set [CHR '' '', CHR 0x09, CHR 0x0A, CHR 0x0B, CHR 0x0C, CHR 0x0D])"

definition trim :: "string \<Rightarrow> string" where
  "trim s = rev (dropWhile is_space (rev (dropWhile is_space s)))"

definition optional_max :: "nat \<Rightarrow> string option \<Rightarrow> bool" where
  \<comment> \<open>\<^verbatim>\<open>.optional().trim().isLength({ max: n })\<close>\<close>
  "optional_max n v = (case v of None \<Rightarrow> True | Some t \<Rightarrow> length (trim t) \<le> n)"

definition valid_book :: "book_request \<Rightarrow> bool" where
  "valid_book r =
     (matches_startTime (b_startTime r)
      \<and> 30 \<le> b_duration r \<and> b_duration r \<le> 180
      \<and> b_sessionType r \<in> set [''individual'', ''group'', ''couple'']
      \<and> b_sessionMode r \<in> set [''video'', ''audio'', ''chat'', ''in-person'']
      \<and> optional_max 1000 (b_notes r))"

definition conflictingAppointment ::
  "appointment list \<Rightarrow> nat \<Rightarrow> int \<Rightarrow> string \<Rightarrow> string \<Rightarrow> appointment option" where
  "conflictingAppointment as tid d startT endT =
     find (\<lambda>a. therapist a = tid \<and> date a = d \<and> active (status a)
               \<and> startTime a < endT \<and> endTime a > startT) as"

definition computeAmount :: "therapist_doc \<Rightarrow> nat \<Rightarrow> rat" where
  \<comment> \<open>\<^verbatim>\<open>(therapist.hourlyRate / 60) * duration\<close>\<close>
  "computeAmount t d = (hourlyRate t / 60) * of_nat d"

text \<open>
  \<^verbatim>\<open>POST /book\<close> of \<^verbatim>\<open>routes/appointment.ts\<close>. \<open>uid\<close> is the authenticated client
  (\<^verbatim>\<open>req.user._id\<close>), \<open>now\<close> the clock that stamps \<^verbatim>\<open>createdAt\<close>.
\<close>

definition book :: "store \<Rightarrow> nat \<Rightarrow> int \<Rightarrow> book_request \<Rightarrow> (error + appointment) \<times> store" where
  "book st uid now r =
     (if \<not> valid_book r then (Inl ValidationError, st)
      else case findById (therapists st) (b_therapistId r) of
        None \<Rightarrow> (Inl ProviderUnavailable, st)
      | Some t \<Rightarrow>
          if \<not> isActive t \<or> \<not> isVerified t then (Inl ProviderUnavailable, st)
          else
            let endT = computeEndTime (b_startTime r) (b_duration r) in
            (case conflictingAppointment (appointments st) (b_therapistId r) (b_date r)
                    (b_startTime r) endT of
               Some c \<Rightarrow> (Inl SlotConflict, st)
             | None \<Rightarrow>
                 let a = \<lparr> appt_id = newObjectId (appointments st), user = uid,
                           therapist = b_therapistId r, date = b_date r,
                           startTime = b_startTime r, endTime = endT,
                           duration = b_duration r, sessionType = b_sessionType r,
                           sessionMode = b_sessionMode r,
                           appt_notes = map_option trim (b_notes r),
                           amount = computeAmount t (b_duration r),
                           status = default_status, rating = None, review = None,
                           cancellationReason = None, createdAt = now \<rparr>
                 in (Inr a, st\<lparr>appointments := appointments st @ [a]\<rparr>)))"

text \<open>
  \<^verbatim>\<open>POST /book-appointment\<close> of \<^verbatim>\<open>routes/chatbot.ts\<close>: the same handler, written out a second
  time in the source.
\<close>

definition book_appointment ::
  "store \<Rightarrow> nat \<Rightarrow> int \<Rightarrow> book_request \<Rightarrow> (error + appointment) \<times> store" where
  "book_appointment st uid now r =
     (if \<not> (matches_startTime (b_startTime r)
             \<and> 30 \<le> b_duration r \<and> b_duration r \<le> 180
             \<and> b_sessionType r \<in> set [''individual'', ''couple'', ''group'']
             \<and> b_sessionMode r \<in> set [''video'', ''audio'', ''chat'', ''in-person'']
             \<and> optional_max 1000 (b_notes r))
      then (Inl ValidationError, st)
      else case findById (therapists st) (b_therapistId r) of
        None \<Rightarrow> (Inl ProviderUnavailable, st)
      | Some t \<Rightarrow>
          if \<not> isActive t \<or> \<not> isVerified t then (Inl ProviderUnavailable, st)
          else
            let endT = computeEndTime (b_startTime r) (b_duration r) in
            (case conflictingAppointment (appointments st) (b_therapistId r) (b_date r)
                    (b_startTime r) endT of
               Some c \<Rightarrow> (Inl SlotConflict, st)
             | None \<Rightarrow>
                 let a = \<lparr> appt_id = newObjectId (appointments st), user = uid,
                           therapist = b_therapistId r, date = b_date r,
                           startTime = b_startTime r, endTime = endT,
                           duration = b_duration r, sessionType = b_sessionType r,
                           sessionMode = b_sessionMode r,
                           appt_notes = map_option trim (b_notes r),
                           amount = computeAmount t (b_duration r),
                           status = default_status, rating = None, review = None,
                           cancellationReason = None, createdAt = now \<rparr>
                 in (Inr a, st\<lparr>appointments := appointments st @ [a]\<rparr>)))"

section \<open>Slot allocator\<close>

record slot =
  slot_startTime :: string
  slot_endTime :: string

text \<open>The loop \<^verbatim>\<open>for (let hour = 9; hour < 18; hour++)\<close>, entered at \<open>hour\<close>.\<close>

function slots_from :: "string list \<Rightarrow> nat \<Rightarrow> slot list" where
  "slots_from bookedTimeSlots hour =
     (if hour < 18 then
        (let timeSlot = padStart2 (toString hour) @ '':00'' in
           (if timeSlot \<notin> set bookedTimeSlots
            then [\<lparr> slot_startTime = timeSlot,
                    slot_endTime = padStart2 (toString (hour + 1)) @ '':00'' \<rparr>]
            else [])
           @ slots_from bookedTimeSlots (hour + 1))
      else [])"
  by pat_completeness auto
termination
  by (relation "measure (\<lambda>(b, hour). 18 - hour)") auto

declare slots_from.simps [simp del]

text \<open>\<^verbatim>\<open>GET /available-slots/:therapistId\<close>; \<open>d\<close> is the \<^verbatim>\<open>date\<close> query parameter, if given.\<close>

definition availableSlots :: "store \<Rightarrow> nat \<Rightarrow> int option \<Rightarrow> error + slot list" where
  "availableSlots st therapistId d =
     (case d of
        None \<Rightarrow> Inl DateRequired
      | Some selectedDate \<Rightarrow>
          (case findById (therapists st) therapistId of
             None \<Rightarrow> Inl ProviderNotFound
           | Some t \<Rightarrow>
               let bookedSlots =
                     filter (\<lambda>a. therapist a = therapistId \<and> date a = selectedDate
                                  \<and> (status a = Confirmed \<or> status a = Pending))
                       (appointments st);
                   bookedTimeSlots = map startTime bookedSlots
               in Inr (slots_from bookedTimeSlots 9)))"

section \<open>Appointment lifecycle\<close>

definition valid_new_status :: "status \<Rightarrow> bool" where
  \<comment> \<open>\<^verbatim>\<open>body('status').isIn(['confirmed', 'cancelled', 'completed', 'no-show'])\<close>\<close>
  "valid_new_status s = (s \<in> set [Confirmed, Cancelled, Completed, NoShow])"

definition assign_if_truthy :: "string option \<Rightarrow> string option \<Rightarrow> string option" where
  \<comment> \<open>\<^verbatim>\<open>if (v) doc.field = v\<close>, with \<open>v\<close> the trimmed body field\<close>
  "assign_if_truthy v old =
     (case v of None \<Rightarrow> old | Some t \<Rightarrow> if trim t = [] then old else Some (trim t))"

text \<open>
  \<^verbatim>\<open>PUT /appointments/:id/status\<close> of \<^verbatim>\<open>routes/therapist.ts\<close>; \<open>tid\<close> is the authenticated
  therapist.
\<close>

definition setStatus ::
  "store \<Rightarrow> nat \<Rightarrow> nat \<Rightarrow> status \<Rightarrow> string option \<Rightarrow> string option
     \<Rightarrow> (error + appointment) \<times> store" where
  "setStatus st tid aid newStatus newNotes reason =
     (if \<not> (valid_new_status newStatus \<and> optional_max 1000 newNotes \<and> optional_max 500 reason)
      then (Inl ValidationError, st)
      else case find (\<lambda>a. appt_id a = aid \<and> therapist a = tid) (appointments st) of
        None \<Rightarrow> (Inl NotFound, st)
      | Some a \<Rightarrow>
          let upd = (\<lambda>b. b\<lparr> status := newStatus,
                            appt_notes := assign_if_truthy newNotes (appt_notes b),
                            cancellationReason := assign_if_truthy reason (cancellationReason b) \<rparr>)
          in (Inr (upd a),
              st\<lparr>appointments := updateFirst (\<lambda>b. appt_id b = appt_id a) upd (appointments st)\<rparr>))"

text \<open>\<^verbatim>\<open>PUT /:id/status\<close> of \<^verbatim>\<open>routes/appointment.ts\<close>.\<close>

definition updateStatus ::
  "store \<Rightarrow> nat \<Rightarrow> nat \<Rightarrow> status \<Rightarrow> (error + appointment) \<times> store" where
  "updateStatus st tid aid newStatus =
     (if \<not> valid_new_status newStatus then (Inl ValidationError, st)
      else case find (\<lambda>a. appt_id a = aid \<and> therapist a = tid) (appointments st) of
        None \<Rightarrow> (Inl NotFound, st)
      | Some a \<Rightarrow>
          (Inr (a\<lparr>status := newStatus\<rparr>),
           st\<lparr>appointments :=
                 updateFirst (\<lambda>a. appt_id a = aid \<and> therapist a = tid)
                   (\<lambda>a. a\<lparr>status := newStatus\<rparr>) (appointments st)\<rparr>))"

text \<open>\<^verbatim>\<open>PUT /:id/cancel\<close> of \<^verbatim>\<open>routes/appointment.ts\<close>; \<open>uid\<close> is the authenticated client.\<close>

definition cancel :: "store \<Rightarrow> nat \<Rightarrow> nat \<Rightarrow> (error + appointment) \<times> store" where
  "cancel st uid aid =
     (let filt = (\<lambda>a. appt_id a = aid \<and> user a = uid \<and> active (status a)) in
      case find filt (appointments st) of
        None \<Rightarrow> (Inl NotCancellable, st)
      | Some a \<Rightarrow>
          (Inr (a\<lparr>status := Cancelled\<rparr>),
           st\<lparr>appointments :=
                 updateFirst filt (\<lambda>a. a\<lparr>status := Cancelled\<rparr>) (appointments st)\<rparr>))"

text \<open>\<^verbatim>\<open>POST /appointments/:id/review\<close> of \<^verbatim>\<open>routes/chatbot.ts\<close>.\<close>

definition submitReview ::
  "store \<Rightarrow> nat \<Rightarrow> nat \<Rightarrow> int \<Rightarrow> string option \<Rightarrow> (error + appointment) \<times> store" where
  "submitReview st uid aid r rv =
     (if \<not> (1 \<le> r \<and> r \<le> 5 \<and> optional_max 1000 rv) then (Inl ValidationError, st)
      else case find (\<lambda>a. appt_id a = aid \<and> user a = uid \<and> status a = Completed)
                  (appointments st) of
        None \<Rightarrow> (Inl NotReviewable, st)
      | Some a \<Rightarrow>
          let upd = (\<lambda>b. b\<lparr> rating := Some r, review := map_option trim rv \<rparr>)
          in (Inr (upd a),
              st\<lparr>appointments := updateFirst (\<lambda>b. appt_id b = appt_id a) upd (appointments st)\<rparr>))"

section \<open>Histories of the ledger\<close>

datatype op =
    Book nat int book_request
  | BookAppointment nat int book_request
  | SetStatus nat nat status "string option" "string option"
  | UpdateStatus nat nat status
  | Cancel nat nat
  | SubmitReview nat nat int "string option"

fun step :: "store \<Rightarrow> op \<Rightarrow> store" where
  "step st (Book uid now r) = snd (book st uid now r)"
| "step st (BookAppointment uid now r) = snd (book_appointment st uid now r)"
| "step st (SetStatus tid aid s n c) = snd (setStatus st tid aid s n c)"
| "step st (UpdateStatus tid aid s) = snd (updateStatus st tid aid s)"
| "step st (Cancel uid aid) = snd (cancel st uid aid)"
| "step st (SubmitReview uid aid r rv) = snd (submitReview st uid aid r rv)"

definition run :: "store \<Rightarrow> op list \<Rightarrow> store" where
  "run st ops = foldl step st ops"

definition empty_ledger :: "therapist_doc list \<Rightarrow> nat list \<Rightarrow> store" where
  "empty_ledger ts us = \<lparr> therapists = ts, users = us, appointments = [] \<rparr>"

section \<open>Sample data\<close>

definition sample_therapist :: therapist_doc where
  "sample_therapist = \<lparr> t_id = 1, hourlyRate = 90, isActive = True, isVerified = True \<rparr>"

definition sample_request :: "string \<Rightarrow> nat \<Rightarrow> book_request" where
  "sample_request s d =
     \<lparr> b_therapistId = 1, b_date = 0, b_startTime = s, b_duration = d,
       b_sessionType = ''individual'', b_sessionMode = ''video'', b_notes = None \<rparr>"

definition sample_appt :: "nat \<Rightarrow> nat \<Rightarrow> string \<Rightarrow> string \<Rightarrow> status \<Rightarrow> appointment" where
  "sample_appt i u s e x =
     \<lparr> appt_id = i, user = u, therapist = 1, date = 0, startTime = s, endTime = e,
       duration = 60, sessionType = ''individual'', sessionMode = ''video'',
       appt_notes = None, amount = 90, status = x, rating = None, review = None,
       cancellationReason = None, createdAt = 0 \<rparr>"

definition sample_store :: "appointment list \<Rightarrow> store" where
  "sample_store as = \<lparr> therapists = [sample_therapist], users = [7, 8], appointments = as \<rparr>"

text \<open>The nine one-hour slots from 09:00 to 18:00, and a day that books every one of them.\<close>

definition hourly_grid :: "slot list" where
  "hourly_grid =
     [\<lparr> slot_startTime = ''09:00'', slot_endTime = ''10:00'' \<rparr>,
      \<lparr> slot_startTime = ''10:00'', slot_endTime = ''11:00'' \<rparr>,
      \<lparr> slot_startTime = ''11:00'', slot_endTime = ''12:00'' \<rparr>,
      \<lparr> slot_startTime = ''12:00'', slot_endTime = ''13:00'' \<rparr>,
      \<lparr> slot_startTime = ''13:00'', slot_endTime = ''14:00'' \<rparr>,
      \<lparr> slot_startTime = ''14:00'', slot_endTime = ''15:00'' \<rparr>,
      \<lparr> slot_startTime = ''15:00'', slot_endTime = ''16:00'' \<rparr>,
      \<lparr> slot_startTime = ''16:00'', slot_endTime = ''17:00'' \<rparr>,
      \<lparr> slot_startTime = ''17:00'', slot_endTime = ''18:00'' \<rparr>]"

definition full_day :: "appointment list" where
  "full_day =
     [sample_appt 1 7 ''09:00'' ''10:00'' Confirmed, sample_appt 2 7 ''10:00'' ''11:00'' Pending,
      sample_appt 3 7 ''11:00'' ''12:00'' Confirmed, sample_appt 4 8 ''12:00'' ''13:00'' Pending,
      sample_appt 5 7 ''13:00'' ''14:00'' Confirmed, sample_appt 6 8 ''14:00'' ''15:00'' Pending,
      sample_appt 7 7 ''15:00'' ''16:00'' Confirmed, sample_appt 8 8 ''16:00'' ''17:00'' Pending,
      sample_appt 9 7 ''17:00'' ''18:00'' Confirmed]"

section \<open>Overlap of intervals\<close>






section \<open>The double-booking invariant\<close>










section \<open>Analytics\<close>

text \<open>
  \<^verbatim>\<open>GET /analytics\<close> of \<^verbatim>\<open>routes/therapist.ts\<close> and the revenue functions of the admin
  analytics module. The window start \<open>startDate\<close> (derived from the period and the clock by
  calendar arithmetic) is a parameter, and so are the formatting of a date as a bucket label
  (\<open>labelFormat\<close>, \<open>dateToString\<close>) and the time that \<^verbatim>\<open>new Date(label)\<close> reads from a label
  (\<open>labelTime\<close>). The \<^verbatim>\<open>monthlyTrends\<close> of the year view and the user and provider counts of the
  platform report are not part of the embedding.

  A JavaScript \<^verbatim>\<open>Map\<close> is the list of its entries in insertion order;
  \<^verbatim>\<open>m.set(k, (m.get(k) || 0) + v)\<close> is \<open>accumulate\<close>, and \<^verbatim>\<open>[...new Set(xs)]\<close> is \<open>uniq\<close>.
\<close>

fun accumulate :: "string \<Rightarrow> 'a::monoid_add \<Rightarrow> (string \<times> 'a) list \<Rightarrow> (string \<times> 'a) list" where
  "accumulate k v [] = [(k, 0 + v)]"
| "accumulate k v ((k', w) # m) =
     (if k = k' then (k', w + v) # m else (k', w) # accumulate k v m)"

fun uniq :: "'a list \<Rightarrow> 'a list" where
  "uniq [] = []"
| "uniq (x # xs) = x # uniq (filter (\<lambda>y. y \<noteq> x) xs)"

definition appointmentsInRange :: "store \<Rightarrow> nat \<Rightarrow> int \<Rightarrow> appointment list" where
  "appointmentsInRange st therapistId startDate =
     filter (\<lambda>a. therapist a = therapistId \<and> date a \<ge> startDate) (appointments st)"

definition earningsData :: "(int \<Rightarrow> string) \<Rightarrow> appointment list \<Rightarrow> (string \<times> rat) list" where
  "earningsData labelFormat apps =
     foldl (\<lambda>m app. if status app = Completed
                     then accumulate (labelFormat (date app)) (amount app) m else m) [] apps"

definition appointmentsData :: "(int \<Rightarrow> string) \<Rightarrow> appointment list \<Rightarrow> (string \<times> nat) list" where
  "appointmentsData labelFormat apps =
     foldl (\<lambda>m app. accumulate (labelFormat (date app)) 1 m) [] apps"

definition sortedEntries :: "(string \<Rightarrow> int) \<Rightarrow> (string \<times> 'a) list \<Rightarrow> (string \<times> 'a) list" where
  "sortedEntries labelTime entries = sort_key (\<lambda>e. labelTime (fst e)) entries"

definition clientIds :: "store \<Rightarrow> nat \<Rightarrow> int \<Rightarrow> nat list" where
  "clientIds st therapistId startDate =
     uniq (filter (\<lambda>u. u \<in> set (users st))
             (map user (appointmentsInRange st therapistId startDate)))"

definition firstAppointment :: "appointment list \<Rightarrow> nat \<Rightarrow> int option" where
  "firstAppointment as u =
     (case map date (filter (\<lambda>a. user a = u) as) of
        [] \<Rightarrow> None
      | d # ds \<Rightarrow> Some (foldl min d ds))"

definition newClientIds :: "store \<Rightarrow> nat \<Rightarrow> int \<Rightarrow> nat list" where
  "newClientIds st therapistId startDate =
     (let ids = clientIds st therapistId startDate in
      if length ids > 0 then
        (let matched = filter (\<lambda>a. user a \<in> set ids) (appointments st);
             groups = uniq (map user matched)
         in filter (\<lambda>u. case firstAppointment matched u of
                           None \<Rightarrow> False | Some d \<Rightarrow> d \<ge> startDate) groups)
      else [])"

definition averageRating :: "store \<Rightarrow> nat \<Rightarrow> rat" where
  "averageRating st therapistId =
     (let rs = List.map_filter rating
                 (filter (\<lambda>a. therapist a = therapistId \<and> status a = Completed)
                    (appointments st))
      in if rs = [] then 0 else of_int (sum_list rs) / of_nat (length rs))"

definition sessionTypes :: "appointment list \<Rightarrow> (string \<times> nat) list" where
  "sessionTypes apps =
     foldl (\<lambda>m app. if sessionType app \<noteq> [] then accumulate (sessionType app) 1 m else m) [] apps"

record clientStats =
  totalClients :: nat
  newClients :: nat
  returningClients :: int
  averageRatingStat :: rat

record analytics_report =
  earnings :: "(string \<times> rat) list"
  appointmentCounts :: "(string \<times> nat) list"
  clientStatsOf :: clientStats
  sessionTypesOf :: "(string \<times> nat) list"

definition analytics ::
  "(int \<Rightarrow> string) \<Rightarrow> (string \<Rightarrow> int) \<Rightarrow> store \<Rightarrow> nat \<Rightarrow> int \<Rightarrow> analytics_report" where
  "analytics labelFormat labelTime st therapistId startDate =
     (let apps = appointmentsInRange st therapistId startDate;
          ids = clientIds st therapistId startDate;
          newClientsCount = length (newClientIds st therapistId startDate)
      in \<lparr> earnings = sortedEntries labelTime (earningsData labelFormat apps),
           appointmentCounts = sortedEntries labelTime (appointmentsData labelFormat apps),
           clientStatsOf =
             \<lparr> totalClients = length ids,
               newClients = newClientsCount,
               returningClients = int (length ids) - int newClientsCount,
               averageRatingStat = averageRating st therapistId \<rparr>,
           sessionTypesOf = sessionTypes apps \<rparr>)"

text \<open>
  The \<^verbatim>\<open>$group\<close> stage of \<^verbatim>\<open>getRevenueData\<close>, one document at a time: per label the total of
  the amounts and the count. The groups are then sorted by label.
\<close>

fun group_add ::
  "string \<Rightarrow> rat \<Rightarrow> (string \<times> rat \<times> nat) list \<Rightarrow> (string \<times> rat \<times> nat) list" where
  "group_add k v [] = [(k, v, 1)]"
| "group_add k v ((k', t, c) # g) =
     (if k = k' then (k', t + v, c + 1) # g else (k', t, c) # group_add k v g)"

record revenue_report =
  rev_labels :: "string list"
  revenue :: "rat list"
  rev_appointments :: "nat list"

definition getRevenueData :: "(int \<Rightarrow> string) \<Rightarrow> store \<Rightarrow> int \<Rightarrow> revenue_report" where
  "getRevenueData dateToString st startDate =
     (let matched = filter (\<lambda>a. status a = Completed \<and> date a \<ge> startDate) (appointments st);
          groups = foldl (\<lambda>g a. group_add (dateToString (date a)) (amount a) g) [] matched;
          rev = sort_key fst groups
      in \<lparr> rev_labels = map fst rev,
           revenue = map (\<lambda>r. fst (snd r)) rev,
           rev_appointments = map (\<lambda>r. snd (snd r)) rev \<rparr>)"

text \<open>\<^verbatim>\<open>totalRevenue\<close> of \<^verbatim>\<open>getPlatformStats\<close>: completed appointments created in the window.\<close>

definition totalRevenue :: "store \<Rightarrow> int \<Rightarrow> rat" where
  "totalRevenue st startDate =
     sum_list (map amount
       (filter (\<lambda>a. status a = Completed \<and> createdAt a \<ge> startDate) (appointments st)))"

text \<open>
  The count of new clients in the words of the specification: the clients of the window whose
  earliest appointment with this provider is in the window.
\<close>

definition spec_firstWithProvider :: "store \<Rightarrow> nat \<Rightarrow> nat \<Rightarrow> int option" where
  "spec_firstWithProvider st therapistId u =
     firstAppointment (filter (\<lambda>a. therapist a = therapistId) (appointments st)) u"

definition spec_newClients :: "store \<Rightarrow> nat \<Rightarrow> int \<Rightarrow> nat" where
  "spec_newClients st therapistId startDate =
     length (filter (\<lambda>u. case spec_firstWithProvider st therapistId u of
                            None \<Rightarrow> False | Some d \<Rightarrow> d \<ge> startDate)
               (clientIds st therapistId startDate))"

text \<open>
  Sample ledgers: three completed appointments, all created at time 0, two of them dated in the
  window that starts at 500; and a client who saw another provider before this one.
\<close>

definition early_booking :: store where
  "early_booking =
     \<lparr> therapists = [sample_therapist], users = [7],
       appointments =
         [(sample_appt 1 7 ''09:00'' ''10:00'' Completed)\<lparr> date := 1000 \<rparr>,
          (sample_appt 2 7 ''10:00'' ''11:00'' Completed)\<lparr> date := 1000, amount := 45 \<rparr>,
          (sample_appt 3 7 ''09:00'' ''10:00'' Completed)\<lparr> date := 100 \<rparr>] \<rparr>"

definition moved_client :: store where
  "moved_client =
     \<lparr> therapists = [sample_therapist], users = [7],
       appointments =
         [(sample_appt 1 7 ''09:00'' ''10:00'' Completed)\<lparr> therapist := 2, date := 100 \<rparr>,
          (sample_appt 2 7 ''09:00'' ''10:00'' Confirmed)\<lparr> date := 1000 \<rparr>] \<rparr>"

section \<open>Clock strings and minutes\<close>

lemma lt10_cases:
  "d < 10 \<Longrightarrow> d \<in> {0, 1, 2, 3, 4, 5, 6, 7, 8, 9 :: nat}"
  by auto

lemma of_char_digit_char: "d < 10 \<Longrightarrow> of_char (digit_char d) = 48 + d"
  by (drule lt10_cases) (auto simp: digit_char_def)

lemma is_digit_iff: "is_digit c \<longleftrightarrow> 48 \<le> (of_char c :: nat) \<and> (of_char c :: nat) \<le> 57"
  by (simp add: is_digit_def less_eq_char_def)

lemma digit_char_props:
  assumes "d < 10"
  shows "is_digit (digit_char d)" "digit_val (digit_char d) = d" "digit_char d \<noteq> CHR '':''"
proof -
  show "is_digit (digit_char d)" using assms by (simp add: is_digit_iff of_char_digit_char)
  show "digit_val (digit_char d) = d" using assms by (simp add: digit_val_def of_char_digit_char)
  have "of_char (digit_char d) \<noteq> (of_char CHR '':'' :: nat)"
    using assms by (simp add: of_char_digit_char)
  then show "digit_char d \<noteq> CHR '':''" by auto
qed


lemma padStart2_toString:
  assumes "n < 100"
  shows "padStart2 (toString n) = [digit_char (n div 10), digit_char (n mod 10)]"
proof (cases "n < 10")
  case True
  then show ?thesis by (simp add: toString.simps [of n] padStart2_def digit_char_def)
next
  case False
  with assms have "n div 10 < 10" by simp
  with False show ?thesis
    by (simp add: toString.simps [of n] toString.simps [of "n div 10"] padStart2_def)
qed

lemma formatTime_chars:
  assumes "m < 6000"
  shows "formatTime m =
           [digit_char (m div 60 div 10), digit_char (m div 60 mod 10), CHR '':'',
            digit_char (m mod 60 div 10), digit_char (m mod 60 mod 10)]"
proof -
  from assms have "m div 60 < 100" "m mod 60 < 100" by simp_all
  then show ?thesis by (simp add: formatTime_def padStart2_toString)
qed

lemma startTimeMinutes_chars:
  assumes "is_digit a" "is_digit b" "is_digit d" "is_digit e"
  shows "startTimeMinutes [a, b, CHR '':'', d, e]
           = (10 * digit_val a + digit_val b) * 60 + (10 * digit_val d + digit_val e)"
proof -
  have "a \<noteq> CHR '':''" "b \<noteq> CHR '':''" "d \<noteq> CHR '':''" "e \<noteq> CHR '':''"
    using assms by (auto simp: is_digit_iff)
  then show ?thesis
    using assms by (simp add: startTimeMinutes_def split0_def split1_def parseInt_def)
qed

lemma hour_chars:
  assumes "is_digit a" "is_digit b"
  shows "parseInt (split0 (a # b # CHR '':'' # rest)) = 10 * digit_val a + digit_val b"
proof -
  have "a \<noteq> CHR '':''" "b \<noteq> CHR '':''"
    using assms by (auto simp: is_digit_iff)
  then show ?thesis
    using assms by (simp add: split0_def parseInt_def)
qed

lemma startTimeMinutes_formatTime:
  assumes "m < 6000"
  shows "startTimeMinutes (formatTime m) = m"
proof -
  from assms have b: "m div 60 div 10 < 10" "m div 60 mod 10 < 10" "m mod 60 div 10 < 10"
    "m mod 60 mod 10 < 10" by simp_all
  show ?thesis
    using b by (simp add: formatTime_chars [OF assms] startTimeMinutes_chars digit_char_props)
qed

lemma hour_formatTime:
  assumes "m < 6000"
  shows "parseInt (split0 (formatTime m)) = m div 60"
proof -
  from assms have b: "m div 60 div 10 < 10" "m div 60 mod 10 < 10" by simp_all
  show ?thesis
    using b by (simp add: formatTime_chars [OF assms] hour_chars digit_char_props)
qed







lemma hhmm_formatTime: "m < 6000 \<Longrightarrow> hhmm (formatTime m)"
proof -
  assume m: "m < 6000"
  then have b: "m div 60 div 10 < 10" "m div 60 mod 10 < 10" "m mod 60 div 10 < 6"
    "m mod 60 mod 10 < 10" by simp_all
  then have "m mod 60 div 10 < 10" by simp
  with b show ?thesis
    by (simp add: formatTime_chars [OF m] hhmm_def digit_char_props less_eq_char_def
          of_char_digit_char)
qed

lemma matches_startTime_minutes:
  assumes "matches_startTime s"
  shows "startTimeMinutes s < 1440"
proof -
  consider (short) h c m1 m2 where "s = [h, c, m1, m2]"
    | (long) h1 h2 c m1 m2 where "s = [h1, h2, c, m1, m2]"
    using assms by (auto simp: matches_startTime_def split: list.splits)
  then show ?thesis
  proof cases
    case short
    with assms have d: "is_digit h" "c = CHR '':''" "is_digit m1" "is_digit m2"
      "(of_char m1 :: nat) \<le> 53"
      by (simp_all add: matches_startTime_def is_digit_iff less_eq_char_def)
    then have "h \<noteq> CHR '':''" "m1 \<noteq> CHR '':''" "m2 \<noteq> CHR '':''"
      by (auto simp: is_digit_iff)
    with d short show ?thesis
      by (simp add: startTimeMinutes_def split0_def split1_def parseInt_def digit_val_def
            is_digit_iff) arith
  next
    case long
    with assms have d: "is_digit h1" "is_digit h2" "c = CHR '':''" "is_digit m1" "is_digit m2"
      "(of_char m1 :: nat) \<le> 53"
      and h: "(of_char h1 :: nat) \<le> 49 \<or> ((of_char h1 :: nat) = 50 \<and> (of_char h2 :: nat) \<le> 51)"
      by (auto simp: matches_startTime_def is_digit_iff less_eq_char_def)
    show ?thesis
      using d h unfolding long d(3) startTimeMinutes_chars [OF d(1,2,4,5)]
      by (auto simp: digit_val_def is_digit_iff)
  qed
qed


lemma computeEndTime_minutes:
  assumes "matches_startTime s" "d \<le> 180"
  shows "hhmm (computeEndTime s d)"
    and "startTimeMinutes (computeEndTime s d) = startTimeMinutes s + d"
    and "parseInt (split0 (computeEndTime s d)) = (startTimeMinutes s + d) div 60"
proof -
  from matches_startTime_minutes [OF assms(1)] assms(2)
  have m: "startTimeMinutes s + d < 6000" by simp
  show "hhmm (computeEndTime s d)"
    by (simp add: computeEndTime_def hhmm_formatTime [OF m])
  show "startTimeMinutes (computeEndTime s d) = startTimeMinutes s + d"
    by (simp add: computeEndTime_def startTimeMinutes_formatTime [OF m])
  show "parseInt (split0 (computeEndTime s d)) = (startTimeMinutes s + d) div 60"
    by (simp add: computeEndTime_def hour_formatTime [OF m])
qed

section \<open>Documents and their identifiers\<close>

lemma find_by_id:
  assumes "distinct (map appt_id xs)" "a \<in> set xs"
  shows "find (\<lambda>b. appt_id b = appt_id a \<and> P b) xs = (if P a then Some a else None)"
  using assms
proof (induction xs)
  case Nil
  then show ?case by simp
next
  case (Cons x xs)
  show ?case
  proof (cases "x = a")
    case True
    with Cons.prems have "\<forall>b \<in> set xs. appt_id b \<noteq> appt_id a" by (auto simp: image_iff)
    then have "find (\<lambda>b. appt_id b = appt_id a \<and> P b) xs = None"
      by (auto simp: find_None_iff)
    with True show ?thesis by simp
  next
    case False
    with Cons.prems have "a \<in> set xs" "appt_id x \<noteq> appt_id a" by auto
    with Cons show ?thesis by simp
  qed
qed

lemma updateFirst_by_id:
  assumes "distinct (map appt_id xs)" "a \<in> set xs" "P a"
  shows "updateFirst (\<lambda>b. appt_id b = appt_id a \<and> P b) f xs
           = map (\<lambda>b. if appt_id b = appt_id a then f b else b) xs"
  using assms
proof (induction xs)
  case Nil
  then show ?case by simp
next
  case (Cons x xs)
  show ?case
  proof (cases "x = a")
    case True
    with Cons.prems have "\<forall>b \<in> set xs. appt_id b \<noteq> appt_id a" by (auto simp: image_iff)
    then have "map (\<lambda>b. if appt_id b = appt_id a then f b else b) xs = xs"
      by (simp add: map_idI)
    with True Cons.prems show ?thesis by simp
  next
    case False
    with Cons.prems have "a \<in> set xs" "appt_id x \<noteq> appt_id a" by auto
    with Cons show ?thesis by simp
  qed
qed

lemma updateFirst_by_id_only:
  assumes "distinct (map appt_id xs)" "a \<in> set xs"
  shows "updateFirst (\<lambda>b. appt_id b = appt_id a) f xs
           = map (\<lambda>b. if appt_id b = appt_id a then f b else b) xs"
  using updateFirst_by_id [OF assms, of "\<lambda>_. True" f] by simp

section \<open>Client cancellation\<close>

text \<open>
  C4. A client's cancel of an appointment of their own succeeds exactly when the appointment is
  pending or confirmed, and then sets its status to cancelled and nothing else; from cancelled,
  completed or no-show it fails, and the store is left as it was.
\<close>

theorem cancel_exactly_when_active:
  assumes "distinct (map appt_id (appointments st))"
    and "a \<in> set (appointments st)" and "appt_id a = aid" and "user a = uid"
  shows "((\<exists>a'. fst (cancel st uid aid) = Inr a') \<longleftrightarrow> status a = Pending \<or> status a = Confirmed)
       \<and> (status a = Pending \<or> status a = Confirmed \<longrightarrow>
            cancel st uid aid =
              (Inr (a\<lparr>status := Cancelled\<rparr>),
               st\<lparr>appointments :=
                    map (\<lambda>b. if appt_id b = aid then b\<lparr>status := Cancelled\<rparr> else b)
                      (appointments st)\<rparr>))
       \<and> (status a = Cancelled \<or> status a = Completed \<or> status a = NoShow \<longrightarrow>
            cancel st uid aid = (Inl NotCancellable, st))"
proof -
  let ?P = "\<lambda>b. user b = uid \<and> active (status b)"
  have f: "find (\<lambda>b. appt_id b = aid \<and> user b = uid \<and> active (status b)) (appointments st)
             = (if ?P a then Some a else None)"
    using find_by_id [OF assms(1,2), of ?P] assms(3) by simp
  have u: "?P a \<Longrightarrow>
      updateFirst (\<lambda>b. appt_id b = aid \<and> user b = uid \<and> active (status b))
          (\<lambda>b. b\<lparr>status := Cancelled\<rparr>) (appointments st)
        = map (\<lambda>b. if appt_id b = aid then b\<lparr>status := Cancelled\<rparr> else b) (appointments st)"
    using updateFirst_by_id [OF assms(1,2), of ?P] assms(3) by simp
  show ?thesis
  proof (cases "active (status a)")
    case True
    with f u assms(4) show ?thesis
      by (auto simp: cancel_def Let_def active_def)
  next
    case False
    with f assms(4) show ?thesis
      by (cases "status a") (auto simp: cancel_def Let_def active_def)
  qed
qed

theorem cancel_exactly_when_active_witness:
  "cancel (sample_store [sample_appt 1 7 ''09:00'' ''10:00'' Confirmed]) 7 1
     = (Inr (sample_appt 1 7 ''09:00'' ''10:00'' Cancelled),
        sample_store [sample_appt 1 7 ''09:00'' ''10:00'' Cancelled])
   \<and> cancel (sample_store [sample_appt 1 7 ''09:00'' ''10:00'' Completed]) 7 1
     = (Inl NotCancellable, sample_store [sample_appt 1 7 ''09:00'' ''10:00'' Completed])"
  using cancel_exactly_when_active
          [of "sample_store [sample_appt 1 7 ''09:00'' ''10:00'' Confirmed]"
              "sample_appt 1 7 ''09:00'' ''10:00'' Confirmed" 1 7]
        cancel_exactly_when_active
          [of "sample_store [sample_appt 1 7 ''09:00'' ''10:00'' Completed]"
              "sample_appt 1 7 ''09:00'' ''10:00'' Completed" 1 7]
  by (simp add: sample_store_def sample_appt_def)

section \<open>Review submission\<close>

text \<open>
  C5. A review of an appointment of the requesting client is accepted exactly when the
  appointment is completed and the rating is an integer from 1 to 5 (the optional review text
  being within its length limit). An accepted review sets the rating and the review and leaves
  every status as it was; on an appointment that is not completed the request fails with
  NotReviewable and the store is unchanged.
\<close>

theorem submitReview_exactly_when_completed:
  assumes "distinct (map appt_id (appointments st))"
    and "a \<in> set (appointments st)" and "appt_id a = aid" and "user a = uid"
    and "optional_max 1000 rv"
  shows "((\<exists>a'. fst (submitReview st uid aid r rv) = Inr a')
            \<longleftrightarrow> status a = Completed \<and> 1 \<le> r \<and> r \<le> 5)
       \<and> (status a = Completed \<and> 1 \<le> r \<and> r \<le> 5 \<longrightarrow>
            submitReview st uid aid r rv =
              (Inr (a\<lparr>rating := Some r, review := map_option trim rv\<rparr>),
               st\<lparr>appointments :=
                    map (\<lambda>b. if appt_id b = aid
                              then b\<lparr>rating := Some r, review := map_option trim rv\<rparr> else b)
                      (appointments st)\<rparr>)
            \<and> map status (appointments (snd (submitReview st uid aid r rv)))
                = map status (appointments st))
       \<and> (status a \<noteq> Completed \<and> 1 \<le> r \<and> r \<le> 5 \<longrightarrow>
            submitReview st uid aid r rv = (Inl NotReviewable, st))
       \<and> (\<not> (1 \<le> r \<and> r \<le> 5) \<longrightarrow>
            submitReview st uid aid r rv = (Inl ValidationError, st))"
proof -
  let ?P = "\<lambda>b. user b = uid \<and> status b = Completed"
  let ?upd = "\<lambda>b. b\<lparr>rating := Some r, review := map_option trim rv\<rparr>"
  have f: "find (\<lambda>b. appt_id b = aid \<and> user b = uid \<and> status b = Completed) (appointments st)
             = (if ?P a then Some a else None)"
    using find_by_id [OF assms(1,2), of ?P] assms(3) by simp
  have u: "updateFirst (\<lambda>b. appt_id b = aid) ?upd (appointments st)
             = map (\<lambda>b. if appt_id b = aid then ?upd b else b) (appointments st)"
    using updateFirst_by_id_only [OF assms(1,2), of ?upd] assms(3) by simp
  have s: "map status (map (\<lambda>b. if appt_id b = aid then ?upd b else b) (appointments st))
             = map status (appointments st)"
    by (induction "appointments st") (simp_all add: comp_def)
  show ?thesis
    using f u s assms(3,4,5)
    by (auto simp: submitReview_def Let_def)
qed

theorem submitReview_exactly_when_completed_witness:
  "submitReview (sample_store [sample_appt 1 7 ''09:00'' ''10:00'' Completed]) 7 1 5 None
     = (Inr ((sample_appt 1 7 ''09:00'' ''10:00'' Completed)\<lparr>rating := Some 5\<rparr>),
        sample_store [(sample_appt 1 7 ''09:00'' ''10:00'' Completed)\<lparr>rating := Some 5\<rparr>])
   \<and> submitReview (sample_store [sample_appt 1 7 ''09:00'' ''10:00'' Pending]) 7 1 5 None
     = (Inl NotReviewable, sample_store [sample_appt 1 7 ''09:00'' ''10:00'' Pending])"
  using submitReview_exactly_when_completed
          [of "sample_store [sample_appt 1 7 ''09:00'' ''10:00'' Completed]"
              "sample_appt 1 7 ''09:00'' ''10:00'' Completed" 1 7 None 5]
        submitReview_exactly_when_completed
          [of "sample_store [sample_appt 1 7 ''09:00'' ''10:00'' Pending]"
              "sample_appt 1 7 ''09:00'' ''10:00'' Pending" 1 7 None 5]
  by (simp add: sample_store_def sample_appt_def optional_max_def)

section \<open>Provider status changes\<close>




section \<open>Booking\<close>

lemma book_appointment_eq_book: "book_appointment = book"
  by (intro ext) (auto simp: book_appointment_def book_def valid_book_def)

lemma book_success:
  assumes "valid_book r"
    and "findById (therapists st) (b_therapistId r) = Some t" and "isActive t" and "isVerified t"
    and "conflictingAppointment (appointments st) (b_therapistId r) (b_date r) (b_startTime r)
           (computeEndTime (b_startTime r) (b_duration r)) = None"
  shows "book st uid now r =
           (Inr \<lparr> appt_id = newObjectId (appointments st), user = uid,
                  therapist = b_therapistId r, date = b_date r,
                  startTime = b_startTime r,
                  endTime = computeEndTime (b_startTime r) (b_duration r),
                  duration = b_duration r, sessionType = b_sessionType r,
                  sessionMode = b_sessionMode r,
                  appt_notes = map_option trim (b_notes r),
                  amount = computeAmount t (b_duration r),
                  status = default_status, rating = None, review = None,
                  cancellationReason = None, createdAt = now \<rparr>,
            st\<lparr>appointments := appointments st @
                 [\<lparr> appt_id = newObjectId (appointments st), user = uid,
                  therapist = b_therapistId r, date = b_date r,
                  startTime = b_startTime r,
                  endTime = computeEndTime (b_startTime r) (b_duration r),
                  duration = b_duration r, sessionType = b_sessionType r,
                  sessionMode = b_sessionMode r,
                  appt_notes = map_option trim (b_notes r),
                  amount = computeAmount t (b_duration r),
                  status = default_status, rating = None, review = None,
                  cancellationReason = None, createdAt = now \<rparr>]\<rparr>)"
  using assms by (simp add: book_def Let_def)

text \<open>
  C10. A booking whose start time plus duration reaches or passes midnight (1440 minutes) is
  neither rejected for that nor wrapped: a valid request to an available provider with no
  conflicting appointment is persisted, with the start time as given and an end time that
  denotes start plus duration, whose hour field is 24 or more (23:00 plus 120 minutes gives
  the string 25:00). Both booking handlers behave so.
\<close>

theorem book_across_midnight:
  assumes "h = book \<or> h = book_appointment"
    and "valid_book r"
    and "findById (therapists st) (b_therapistId r) = Some t" and "isActive t" and "isVerified t"
    and "conflictingAppointment (appointments st) (b_therapistId r) (b_date r) (b_startTime r)
           (computeEndTime (b_startTime r) (b_duration r)) = None"
    and "1440 \<le> startTimeMinutes (b_startTime r) + b_duration r"
  shows "\<exists>a. h st uid now r = (Inr a, st\<lparr>appointments := appointments st @ [a]\<rparr>)
           \<and> startTime a = b_startTime r
           \<and> endTime a = computeEndTime (b_startTime r) (b_duration r)
           \<and> startTimeMinutes (endTime a) = startTimeMinutes (b_startTime r) + b_duration r
           \<and> 24 \<le> parseInt (split0 (endTime a))"
proof -
  from assms(2) have v: "matches_startTime (b_startTime r)" "b_duration r \<le> 180"
    by (simp_all add: valid_book_def)
  have hb: "h = book" using assms(1) by (simp add: book_appointment_eq_book)
  from assms(7) have "24 \<le> (startTimeMinutes (b_startTime r) + b_duration r) div 60"
    by simp
  then show ?thesis
    unfolding hb book_success [OF assms(2-6)]
    by (simp add: computeEndTime_minutes [OF v])
qed

theorem book_across_midnight_witness:
  "\<exists>a. book (sample_store []) 7 0 (sample_request ''23:00'' 120)
          = (Inr a, sample_store [a])
        \<and> startTime a = ''23:00'' \<and> endTime a = ''25:00''"
proof -
  let ?r = "sample_request ''23:00'' 120" and ?st = "sample_store []"
  have e: "computeEndTime ''23:00'' 120 = ''25:00''"
    by (simp add: computeEndTime_def formatTime_def startTimeMinutes_def parseInt_def split0_def
          split1_def is_digit_def digit_val_def toString.simps padStart2_def digit_char_def)
  have m: "1440 \<le> startTimeMinutes (b_startTime ?r) + b_duration ?r"
    by (simp add: sample_request_def startTimeMinutes_def parseInt_def split0_def split1_def
          is_digit_def digit_val_def)
  have v: "valid_book ?r"
    by (simp add: valid_book_def sample_request_def matches_startTime_def is_digit_def
          optional_max_def)
  have f: "findById (therapists ?st) (b_therapistId ?r) = Some sample_therapist"
    by (simp add: sample_request_def sample_store_def sample_therapist_def findById_def)
  have t: "isActive sample_therapist" "isVerified sample_therapist"
    by (simp_all add: sample_therapist_def)
  have c: "conflictingAppointment (appointments ?st) (b_therapistId ?r) (b_date ?r)
             (b_startTime ?r) (computeEndTime (b_startTime ?r) (b_duration ?r)) = None"
    by (simp add: sample_store_def conflictingAppointment_def)
  have r: "b_startTime ?r = ''23:00''" "b_duration ?r = 120"
    by (simp_all add: sample_request_def)
  have s: "?st\<lparr>appointments := appointments ?st @ [a]\<rparr> = sample_store [a]" for a
    by (simp add: sample_store_def)
  from book_across_midnight [OF disjI1 [OF refl] v f t c m, of 7 0]
  show ?thesis unfolding r e s by blast
qed



section \<open>Available slots\<close>

lemma slots_from_filter:
  "slots_from b h =
     map (\<lambda>k. \<lparr> slot_startTime = padStart2 (toString k) @ '':00'',
                slot_endTime = padStart2 (toString (k + 1)) @ '':00'' \<rparr>)
       (filter (\<lambda>k. padStart2 (toString k) @ '':00'' \<notin> set b) [h..<18])"
proof (induction b h rule: slots_from.induct)
  case (1 b h)
  show ?case
  proof (cases "h < 18")
    case True
    then have u: "[h..<18] = h # [h + 1..<18]" by (simp add: upt_conv_Cons)
    from True 1 show ?thesis
      unfolding u by (subst slots_from.simps) (simp add: Let_def)
  next
    case False
    then show ?thesis by (subst slots_from.simps) simp
  qed
qed

lemma map_filter_start:
  assumes "\<And>k. sel (f k) = g k"
  shows "map f (filter (\<lambda>k. g k \<notin> B) xs) = filter (\<lambda>x. sel x \<notin> B) (map f xs)"
  by (induction xs) (simp_all add: assms)

lemma hourly_grid_eq:
  "map (\<lambda>k. \<lparr> slot_startTime = padStart2 (toString k) @ '':00'',
              slot_endTime = padStart2 (toString (k + 1)) @ '':00'' \<rparr>) [9..<18] = hourly_grid"
proof -
  have u: "[9..<18] = [9, 10, 11, 12, 13, 14, 15, 16, 17 :: nat]"
    by (simp add: upt_rec)
  show ?thesis
    unfolding u by (simp add: hourly_grid_def toString.simps padStart2_def digit_char_def)
qed

lemma hourly_grid_minutes:
  "map (\<lambda>x. startTimeMinutes (slot_startTime x)) hourly_grid
     = [540, 600, 660, 720, 780, 840, 900, 960, 1020]"
  by (simp add: hourly_grid_def startTimeMinutes_def parseInt_def split0_def split1_def
        is_digit_def digit_val_def)

text \<open>
  C7. For a known provider and a given date, \<open>availableSlots\<close> returns the one-hour slots of
  the 09:00 to 18:00 grid, in ascending order of start time, leaving out exactly those whose
  start time is, as a string, the start time of a pending or confirmed appointment of that
  provider and date. When every start time of the grid is so booked, the result is empty.
\<close>

theorem availableSlots_hourly_grid:
  assumes "findById (therapists st) tid = Some t"
    and "booked = set (map startTime
                     (filter (\<lambda>a. therapist a = tid \<and> date a = d
                                   \<and> (status a = Pending \<or> status a = Confirmed))
                        (appointments st)))"
  shows "availableSlots st tid (Some d)
           = Inr (filter (\<lambda>x. slot_startTime x \<notin> booked) hourly_grid)
       \<and> sorted_wrt (<) (map (\<lambda>x. startTimeMinutes (slot_startTime x))
                          (filter (\<lambda>x. slot_startTime x \<notin> booked) hourly_grid))
       \<and> ((\<forall>x \<in> set hourly_grid. slot_startTime x \<in> booked)
            \<longrightarrow> availableSlots st tid (Some d) = Inr [])"
proof -
  let ?f = "\<lambda>k. \<lparr> slot_startTime = padStart2 (toString k) @ '':00'',
                  slot_endTime = padStart2 (toString (k + 1)) @ '':00'' \<rparr>"
  let ?b = "map startTime (filter (\<lambda>a. therapist a = tid \<and> date a = d
                                      \<and> (status a = Confirmed \<or> status a = Pending))
                             (appointments st))"
  let ?sl = "filter (\<lambda>x. slot_startTime x \<notin> booked) hourly_grid"
  have b: "set ?b = booked" unfolding assms(2) by auto
  have "slots_from ?b 9
          = map ?f (filter (\<lambda>k. padStart2 (toString k) @ '':00'' \<notin> set ?b) [9..<18])"
    by (rule slots_from_filter)
  also have "\<dots> = filter (\<lambda>x. slot_startTime x \<notin> set ?b) (map ?f [9..<18])"
    by (rule map_filter_start) simp
  finally have s: "slots_from ?b 9 = ?sl"
    unfolding hourly_grid_eq b .
  have a: "availableSlots st tid (Some d) = Inr ?sl"
    using assms(1) s by (simp add: availableSlots_def Let_def)
  have "sorted_wrt (<) (map (\<lambda>x. startTimeMinutes (slot_startTime x)) hourly_grid)"
    unfolding hourly_grid_minutes by simp
  then have "sorted_wrt (\<lambda>x y. startTimeMinutes (slot_startTime x)
                               < startTimeMinutes (slot_startTime y)) ?sl"
    unfolding sorted_wrt_map by (rule sorted_wrt_filter)
  then have o: "sorted_wrt (<) (map (\<lambda>x. startTimeMinutes (slot_startTime x)) ?sl)"
    unfolding sorted_wrt_map .
  have e: "(\<forall>x \<in> set hourly_grid. slot_startTime x \<in> booked) \<longrightarrow> ?sl = []"
    by (simp add: filter_empty_conv)
  from a o e show ?thesis by simp
qed

theorem availableSlots_hourly_grid_witness:
  "availableSlots (sample_store [sample_appt 1 7 ''10:00'' ''11:00'' Pending,
                                 sample_appt 2 7 ''9:00'' ''10:00'' Confirmed,
                                 sample_appt 3 7 ''13:00'' ''14:00'' Cancelled]) 1 (Some 0)
     = Inr [\<lparr> slot_startTime = ''09:00'', slot_endTime = ''10:00'' \<rparr>,
            \<lparr> slot_startTime = ''11:00'', slot_endTime = ''12:00'' \<rparr>,
            \<lparr> slot_startTime = ''12:00'', slot_endTime = ''13:00'' \<rparr>,
            \<lparr> slot_startTime = ''13:00'', slot_endTime = ''14:00'' \<rparr>,
            \<lparr> slot_startTime = ''14:00'', slot_endTime = ''15:00'' \<rparr>,
            \<lparr> slot_startTime = ''15:00'', slot_endTime = ''16:00'' \<rparr>,
            \<lparr> slot_startTime = ''16:00'', slot_endTime = ''17:00'' \<rparr>,
            \<lparr> slot_startTime = ''17:00'', slot_endTime = ''18:00'' \<rparr>]
   \<and> availableSlots (sample_store full_day) 1 (Some 0) = Inr []"
proof -
  let ?as = "[sample_appt 1 7 ''10:00'' ''11:00'' Pending,
              sample_appt 2 7 ''9:00'' ''10:00'' Confirmed,
              sample_appt 3 7 ''13:00'' ''14:00'' Cancelled]"
  have f: "findById (therapists (sample_store as)) 1 = Some sample_therapist" for as
    by (simp add: sample_store_def sample_therapist_def findById_def)
  have b1: "set (map startTime
                (filter (\<lambda>a. therapist a = 1 \<and> date a = 0
                              \<and> (status a = Pending \<or> status a = Confirmed))
                   (appointments (sample_store ?as))))
             = {''10:00'', ''9:00''}"
    by (simp add: sample_store_def sample_appt_def)
  have b2: "set (map startTime
                (filter (\<lambda>a. therapist a = 1 \<and> date a = 0
                              \<and> (status a = Pending \<or> status a = Confirmed))
                   (appointments (sample_store full_day))))
             = set (map slot_startTime hourly_grid)"
    by (simp add: sample_store_def sample_appt_def full_day_def hourly_grid_def)
  have g: "\<forall>x \<in> set hourly_grid. slot_startTime x \<in> set (map slot_startTime hourly_grid)"
    by simp
  have w2: "availableSlots (sample_store full_day) 1 (Some 0) = Inr []"
    by (rule availableSlots_hourly_grid
          [OF f b2 [symmetric], THEN conjunct2, THEN conjunct2, THEN mp, OF g])
  have w1: "availableSlots (sample_store ?as) 1 (Some 0)
              = Inr (filter (\<lambda>x. slot_startTime x \<notin> {''10:00'', ''9:00''}) hourly_grid)"
    by (rule availableSlots_hourly_grid [OF f b1 [symmetric], THEN conjunct1])
  from w1 w2 show ?thesis
    by (simp add: hourly_grid_def)
qed

section \<open>Slot conflicts\<close>










section \<open>No double booking\<close>



















section \<open>Analytics: clients and earnings\<close>

text \<open>
  C8. The handler counts as new the clients of the window whose earliest appointment with
  any provider is in the window: the aggregation that finds the first appointment matches on
  the client only. A client who saw another provider before the window and this provider for
  the first time inside it is reported as returning (new 0, returning 1), where the earliest
  appointment with this provider is inside the window (new 1).
\<close>

theorem newClients_counts_other_providers:
  "clientIds moved_client 1 500 = [7]
   \<and> newClients (clientStatsOf (analytics labelFormat labelTime moved_client 1 500)) = 0
   \<and> returningClients (clientStatsOf (analytics labelFormat labelTime moved_client 1 500)) = 1
   \<and> spec_firstWithProvider moved_client 1 7 = Some 1000
   \<and> spec_newClients moved_client 1 500 = 1"
  by (simp add: analytics_def Let_def clientIds_def newClientIds_def appointmentsInRange_def
        firstAppointment_def spec_newClients_def spec_firstWithProvider_def moved_client_def
        sample_appt_def)



lemma sum_insort_key:
  fixes g :: "'b \<Rightarrow> 'a::comm_monoid_add"
  shows "sum_list (map g (insort_key f x xs)) = g x + sum_list (map g xs)"
  by (induction xs) (simp_all add: add_ac)

lemma sum_sort_key:
  fixes g :: "'b \<Rightarrow> 'a::comm_monoid_add"
  shows "sum_list (map g (sort_key f xs)) = sum_list (map g xs)"
  by (induction xs) (simp_all add: sum_insort_key)

lemma sum_group_add:
  "sum_list (map (\<lambda>r. fst (snd r)) (group_add k v g)) = sum_list (map (\<lambda>r. fst (snd r)) g) + v"
  by (induction g) (auto simp: add_ac)

lemma sum_groups_from:
  "sum_list (map (\<lambda>r. fst (snd r)) (foldl (\<lambda>g a. group_add (f (date a)) (amount a) g) g0 apps))
     = sum_list (map (\<lambda>r. fst (snd r)) g0) + sum_list (map amount apps)"
  by (induction apps arbitrary: g0) (simp_all add: sum_group_add add_ac)



text \<open>
  The platform report's \<^verbatim>\<open>totalRevenue\<close> selects by creation time, not by appointment
  date: it is another sum than that of the revenue series.
\<close>

lemma totalRevenue_by_createdAt:
  "sum_list (revenue (getRevenueData dateToString early_booking 500)) = 135
   \<and> totalRevenue early_booking 500 = 0"
  by (simp add: getRevenueData_def Let_def sum_sort_key sum_groups_from totalRevenue_def)
     (simp add: early_booking_def sample_appt_def)

section \<open>Identifiers in reachable ledgers\<close>

text \<open>
  The theorems on cancellation, review and status change assume that no two stored
  appointments share an \<^verbatim>\<open>_id\<close>. Every ledger reached from the empty one is so: a booking
  stores a fresh identifier, and no other operation changes one.
\<close>

lemma newObjectId_fresh: "x \<in> set as \<Longrightarrow> appt_id x < newObjectId as"
  by (induction as) (auto simp: newObjectId_def)

lemma updateFirst_ids:
  assumes "\<And>x. appt_id (f x) = appt_id x"
  shows "map appt_id (updateFirst P f xs) = map appt_id xs"
  by (induction xs) (simp_all add: assms)

lemma step_ids:
  "map appt_id (appointments (step st x)) = map appt_id (appointments st)
   \<or> map appt_id (appointments (step st x))
       = map appt_id (appointments st) @ [newObjectId (appointments st)]"
proof (cases x)
  case (Book uid now r)
  then show ?thesis
    by (auto simp: book_def Let_def split: option.splits)
next
  case (BookAppointment uid now r)
  then show ?thesis
    by (auto simp: book_appointment_eq_book book_def Let_def split: option.splits)
next
  case (SetStatus tid aid s n c)
  then show ?thesis
    by (auto simp: setStatus_def Let_def updateFirst_ids split: option.splits)
next
  case (UpdateStatus tid aid s)
  then show ?thesis
    by (auto simp: updateStatus_def updateFirst_ids split: option.splits)
next
  case (Cancel uid aid)
  then show ?thesis
    by (auto simp: cancel_def Let_def updateFirst_ids split: option.splits)
next
  case (SubmitReview uid aid r rv)
  then show ?thesis
    by (auto simp: submitReview_def Let_def updateFirst_ids split: option.splits)
qed

lemma step_distinct_ids:
  assumes "distinct (map appt_id (appointments st))"
  shows "distinct (map appt_id (appointments (step st x)))"
proof -
  have "newObjectId (appointments st) \<notin> appt_id ` set (appointments st)"
    using newObjectId_fresh [of _ "appointments st"] by fastforce
  with assms step_ids [of st x] show ?thesis by auto
qed

lemma run_distinct_ids:
  "distinct (map appt_id (appointments st)) \<Longrightarrow> distinct (map appt_id (appointments (run st xs)))"
  unfolding run_def
  by (induction xs arbitrary: st) (simp_all add: step_distinct_ids)

lemma reachable_distinct_ids:
  "distinct (map appt_id (appointments (run (empty_ledger ts us) xs)))"
  by (rule run_distinct_ids) (simp add: empty_ledger_def)

end
